theory Spec2Isabelle
  imports Main
begin

section \<open>Python values, exceptions and log records\<close>

text \<open>
  An exception class is represented by its method resolution order: the names of the
  class itself (first) and of all its ancestors. \<open>issubclass cls base\<close> is Python's
  \<^verbatim>\<open>issubclass(cls, base)\<close>.
\<close>

type_synonym exc_type = "string list"

definition issubclass :: "exc_type \<Rightarrow> string \<Rightarrow> bool" where
  "issubclass cls base = (base \<in> set cls)"

text \<open>An exception instance: its class and its message.\<close>

datatype exn = Exn (exn_class: exc_type) (exn_args: string)

type_synonym traceback = "string list"

type_synonym exc_info_t = "exc_type \<times> exn \<times> traceback"

text \<open>
  The objects the application context can hold: \<^verbatim>\<open>None\<close>, a connection returned by
  \<^verbatim>\<open>engine.connect()\<close> (identified by the number of the connect call that made it, so
  two connections are the same object exactly when the numbers agree), or any other object.
\<close>

datatype pyval = PyNone | Conn nat | PyObj string

text \<open>The numeric levels of the \<^verbatim>\<open>logging\<close> module.\<close>

definition DEBUG :: nat where "DEBUG = 10"
definition INFO :: nat where "INFO = 20"
definition WARNING :: nat where "WARNING = 30"
definition ERROR :: nat where "ERROR = 40"
definition CRITICAL :: nat where "CRITICAL = 50"

text \<open>
  A \<^verbatim>\<open>logging.LogRecord\<close>, with the two attributes \<^verbatim>\<open>RequestFormatter.format\<close> sets.
  \<open>None\<close> in \<open>url\<close> and \<open>remote_addr\<close> is Python's \<^verbatim>\<open>None\<close>.
\<close>

record log_record =
  levelno :: nat
  msg :: string
  exc_info :: "exc_info_t option"
  url :: "string option"
  remote_addr :: "string option"

definition makeRecord :: "nat \<Rightarrow> string \<Rightarrow> exc_info_t option \<Rightarrow> log_record" where
  "makeRecord lvl m ei =
     \<lparr>levelno = lvl, msg = m, exc_info = ei, url = None, remote_addr = None\<rparr>"

section \<open>Configuration (module level of db.py and logger.py)\<close>

text \<open>
  The process environment after \<^verbatim>\<open>load_dotenv\<close>, and \<^verbatim>\<open>os.getenv(key, default)\<close>.
\<close>

type_synonym environ = "string \<rightharpoonup> string"

definition getenv :: "environ \<Rightarrow> string \<Rightarrow> string option \<Rightarrow> string option" where
  "getenv env key dflt = (case env key of Some v \<Rightarrow> Some v | None \<Rightarrow> dflt)"

definition DB_USER :: "environ \<Rightarrow> string option" where
  "DB_USER env = getenv env ''DB_USER'' None"

definition DB_PASSWORD :: "environ \<Rightarrow> string option" where
  "DB_PASSWORD env = getenv env ''DB_PASSWORD'' None"

definition DB_HOST :: "environ \<Rightarrow> string option" where
  "DB_HOST env = getenv env ''DB_HOST'' None"

definition DB_PORT :: "environ \<Rightarrow> string option" where
  "DB_PORT env = getenv env ''DB_PORT'' None"

definition DB_NAME :: "environ \<Rightarrow> string option" where
  "DB_NAME env = getenv env ''DB_NAME'' None"

definition PYTHON_LOG_LEVEL :: "environ \<Rightarrow> string option" where
  "PYTHON_LOG_LEVEL env = getenv env ''PYTHON_LOG_LEVEL'' (Some ''DEBUG'')"

text \<open>How an f-string renders a value that is a string or \<^verbatim>\<open>None\<close>.\<close>

definition fstr :: "string option \<Rightarrow> string" where
  "fstr v = (case v of None \<Rightarrow> ''None'' | Some s \<Rightarrow> s)"

text \<open>The URL \<^verbatim>\<open>get_db\<close> hands to \<^verbatim>\<open>create_engine\<close>.\<close>

definition engine_url :: "environ \<Rightarrow> string" where
  "engine_url env =
     ''mysql+pymysql://'' @ fstr (DB_USER env) @ '':'' @ fstr (DB_PASSWORD env) @ ''@''
       @ fstr (DB_HOST env) @ '':'' @ fstr (DB_PORT env) @ ''/'' @ fstr (DB_NAME env)
       @ ''?charset=utf8mb4''"

section \<open>The state the functions act on\<close>

text \<open>
  \<^item> \<open>g\<close>: the attributes of Flask's application-context object \<^verbatim>\<open>g\<close>;
  \<^item> \<open>logged\<close>: the records the module logger \<^verbatim>\<open>log\<close> was called with, in order
    (the level threshold set from \<^verbatim>\<open>PYTHON_LOG_LEVEL\<close> is applied by the logging library
    to these records afterwards);
  \<^item> \<open>opened\<close>: the URL of every connection \<^verbatim>\<open>engine.connect()\<close> has returned; the
    connection \<open>Conn i\<close> is the one at index \<open>i\<close>;
  \<^item> \<open>close_calls\<close>: the objects \<^verbatim>\<open>close()\<close> has been called on, in order;
  \<^item> \<open>excepthook_calls\<close>: the arguments of every call of \<^verbatim>\<open>sys.__excepthook__\<close>.
\<close>

record world =
  g :: "string \<rightharpoonup> pyval"
  logged :: "log_record list"
  opened :: "string list"
  close_calls :: "pyval list"
  excepthook_calls :: "exc_info_t list"

definition log_info :: "string \<Rightarrow> world \<Rightarrow> world" where
  "log_info m w = w\<lparr>logged := logged w @ [makeRecord INFO m None]\<rparr>"

definition log_critical :: "string \<Rightarrow> exc_info_t option \<Rightarrow> world \<Rightarrow> world" where
  "log_critical m ei w = w\<lparr>logged := logged w @ [makeRecord CRITICAL m ei]\<rparr>"

section \<open>db.py\<close>

text \<open>
  \<^verbatim>\<open>get_db()\<close>. The first argument is the environment the module constants were read
  from. The second is what the driver does in this call: \<open>Some e\<close> when
  \<^verbatim>\<open>create_engine\<close> or \<^verbatim>\<open>engine.connect()\<close> raises \<open>e\<close>, \<open>None\<close> when a connection is
  returned. The result is what the call returns (\<open>Inr\<close>) or raises (\<open>Inl\<close>), with the state
  it leaves. The \<^verbatim>\<open>return g.db\<close> of the source stands inside the \<^verbatim>\<open>if\<close> block, so a
  call that finds \<^verbatim>\<open>"db" in g\<close> runs off the end of the function and returns \<^verbatim>\<open>None\<close>.
\<close>

definition get_db :: "environ \<Rightarrow> exn option \<Rightarrow> world \<Rightarrow> (exn + pyval) \<times> world" where
  "get_db env connect_raises w =
     (if g w ''db'' = None then
        let w1 = log_info ''Connecting to database'' w in
        (case connect_raises of
           Some e \<Rightarrow> (Inl e, w1)
         | None \<Rightarrow>
            let con = Conn (length (opened w1));
                w2 = w1\<lparr>opened := opened w1 @ [engine_url env]\<rparr>;
                w3 = w2\<lparr>g := (g w2)(''db'' \<mapsto> con)\<rparr>
            in (Inr (the (g w3 ''db'')), w3))
      else (Inr PyNone, w))"

text \<open>
  \<^verbatim>\<open>close_db(e=None)\<close>. The argument \<open>e\<close> is not used by the body. \<open>close_raises\<close> is
  what \<^verbatim>\<open>db.close()\<close> does if it is called: \<open>Some x\<close> when it raises \<open>x\<close>. The source
  has no \<^verbatim>\<open>try\<close> around the call.
\<close>

definition close_db :: "exn option \<Rightarrow> exn option \<Rightarrow> world \<Rightarrow> (exn + pyval) \<times> world" where
  "close_db e close_raises w =
     (let w1 = log_info ''close_db requested'' w;
          db = (case g w1 ''db'' of None \<Rightarrow> PyNone | Some v \<Rightarrow> v);
          w2 = w1\<lparr>g := (g w1)(''db'' := None)\<rparr>
      in if db \<noteq> PyNone then
           let w3 = log_info ''Closing db connection'' w2;
               w4 = w3\<lparr>close_calls := close_calls w3 @ [db]\<rparr>
           in (case close_raises of
                 Some x \<Rightarrow> (Inl x, w4)
               | None \<Rightarrow> (Inr PyNone, w4))
         else (Inr PyNone, log_info ''db connection already closed. No action taken.'' w2))"

text \<open>
  The connections this context has been given and has not yet called \<^verbatim>\<open>close()\<close> on,
  and the connection stored under \<^verbatim>\<open>g.db\<close>, if any.
\<close>

definition held :: "world \<Rightarrow> nat list" where
  "held w = filter (\<lambda>c. Conn c \<notin> set (close_calls w)) [0..<length (opened w)]"

definition stored :: "world \<Rightarrow> nat list" where
  "stored w = (case g w ''db'' of Some (Conn c) \<Rightarrow> [c] | _ \<Rightarrow> [])"

text \<open>
  What every state of a context satisfies, stronger than the claim: the \<^verbatim>\<open>db\<close>
  attribute, when present, is a connection that \<^verbatim>\<open>engine.connect()\<close> has returned; the
  connections not yet closed are exactly the stored one; and \<^verbatim>\<open>close()\<close> has only been
  called on connections that \<^verbatim>\<open>engine.connect()\<close> has returned.
\<close>

definition conn_below :: "nat \<Rightarrow> pyval \<Rightarrow> bool" where
  "conn_below n v = (case v of Conn c \<Rightarrow> c < n | _ \<Rightarrow> False)"

definition conn_inv :: "world \<Rightarrow> bool" where
  "conn_inv w =
     ((case g w ''db'' of None \<Rightarrow> True | Some v \<Rightarrow> conn_below (length (opened w)) v) \<and>
      held w = stored w \<and>
      list_all (conn_below (length (opened w))) (close_calls w))"

text \<open>
  The states of one application context: it starts with no \<^verbatim>\<open>db\<close> attribute and no
  connection, and then \<^verbatim>\<open>get_db\<close> and \<^verbatim>\<open>close_db\<close> are called in any order, with any
  outcome of the driver.
\<close>

inductive reachable :: "world \<Rightarrow> bool" where
  fresh: "g w ''db'' = None \<Longrightarrow> opened w = [] \<Longrightarrow> close_calls w = [] \<Longrightarrow> reachable w"
| acquire: "reachable w \<Longrightarrow> reachable (snd (get_db env connect_raises w))"
| release: "reachable w \<Longrightarrow> reachable (snd (close_db e close_raises w))"

section \<open>logger.py\<close>

text \<open>
  The request of the active request context: \<^verbatim>\<open>request.url\<close> is a string,
  \<^verbatim>\<open>request.remote_addr\<close> a string or \<^verbatim>\<open>None\<close>.
\<close>

record request =
  request_url :: string
  request_remote_addr :: "string option"

text \<open>
  \<^verbatim>\<open>RequestFormatter.format(record)\<close>. \<open>super_format\<close> is the formatter of the base
  class; \<open>ctx\<close> is the request context at the time of the call (\<open>None\<close> when
  \<^verbatim>\<open>has_request_context()\<close> is false). The result is the formatted line and the record
  as the call leaves it.
\<close>

definition format :: "(log_record \<Rightarrow> string) \<Rightarrow> request option \<Rightarrow> log_record
    \<Rightarrow> string \<times> log_record" where
  "format super_format ctx r =
     (let r' = (case ctx of
                  Some req \<Rightarrow> r\<lparr>url := Some (request_url req),
                                remote_addr := request_remote_addr req\<rparr>
                | None \<Rightarrow> r\<lparr>url := None, remote_addr := None\<rparr>)
      in (super_format r', r'))"

text \<open>\<^verbatim>\<open>handle_exception(exc_type, exc_value, exc_traceback)\<close>, installed as \<^verbatim>\<open>sys.excepthook\<close>.\<close>

definition handle_exception :: "exc_type \<Rightarrow> exn \<Rightarrow> traceback \<Rightarrow> world \<Rightarrow> world" where
  "handle_exception exc_type exc_value exc_traceback w =
     (if issubclass exc_type ''KeyboardInterrupt'' then
        w\<lparr>excepthook_calls := excepthook_calls w @ [(exc_type, exc_value, exc_traceback)]\<rparr>
      else
        log_critical ''Uncaught exception'' (Some (exc_type, exc_value, exc_traceback)) w)"

section \<open>The health route\<close>

text \<open>What the liveness query of the health route does.\<close>

datatype query_outcome = QueryOk pyval | OperationalError exn | OtherException exn

record response =
  body :: string
  status :: nat

text \<open>
  Modelled from the spec: the health route of \<^verbatim>\<open>src/web/app.py\<close>, which is not among the
  source files (only its tests are). Spec, section 6: if the query succeeds, respond with
  body "OK" and status 200; if it fails with a database-operational error or any other
  exception, respond with body "BAD" and status 200.
\<close>

definition health :: "query_outcome \<Rightarrow> response" where
  "health q =
     (case q of
        QueryOk row \<Rightarrow> \<lparr>body = ''OK'', status = 200\<rparr>
      | OperationalError x \<Rightarrow> \<lparr>body = ''BAD'', status = 200\<rparr>
      | OtherException x \<Rightarrow> \<lparr>body = ''BAD'', status = 200\<rparr>)"

section \<open>Concrete inputs used below\<close>

definition w_fresh :: world where
  "w_fresh = \<lparr>g = Map.empty, logged = [], opened = [], close_calls = [], excepthook_calls = []\<rparr>"

definition w_conn :: world where
  "w_conn = snd (get_db Map.empty None w_fresh)"

definition close_error :: exn where
  "close_error = Exn [''OperationalError'', ''DBAPIError'', ''StatementError'',
     ''SQLAlchemyError'', ''Exception'', ''BaseException'', ''object''] ''server has gone away''"

definition ValueError :: exc_type where
  "ValueError = [''ValueError'', ''Exception'', ''BaseException'', ''object'']"

definition KeyboardInterrupt :: exc_type where
  "KeyboardInterrupt = [''KeyboardInterrupt'', ''BaseException'', ''object'']"

section \<open>Basic facts\<close>

lemma get_db_absent:
  "g w ''db'' = None \<Longrightarrow> get_db env None w =
     (Inr (Conn (length (opened w))),
      w\<lparr>logged := logged w @ [makeRecord INFO ''Connecting to database'' None],
        opened := opened w @ [engine_url env],
        g := (g w)(''db'' \<mapsto> Conn (length (opened w)))\<rparr>)"
  by (simp add: get_db_def log_info_def Let_def)

lemma get_db_absent_raises:
  "g w ''db'' = None \<Longrightarrow> get_db env (Some x) w =
     (Inl x, w\<lparr>logged := logged w @ [makeRecord INFO ''Connecting to database'' None]\<rparr>)"
  by (simp add: get_db_def log_info_def Let_def)

lemma get_db_present:
  "g w ''db'' = Some v \<Longrightarrow> get_db env connect_raises w = (Inr PyNone, w)"
  by (simp add: get_db_def)

lemma close_db_present:
  "g w ''db'' = Some v \<Longrightarrow> v \<noteq> PyNone \<Longrightarrow> close_db e close_raises w =
     ((case close_raises of Some x \<Rightarrow> Inl x | None \<Rightarrow> Inr PyNone),
      w\<lparr>logged := logged w @ [makeRecord INFO ''close_db requested'' None,
                               makeRecord INFO ''Closing db connection'' None],
        g := (g w)(''db'' := None),
        close_calls := close_calls w @ [v]\<rparr>)"
  by (simp add: close_db_def log_info_def Let_def split: option.split)

lemma close_db_absent:
  "g w ''db'' = None \<Longrightarrow> close_db e close_raises w =
     (Inr PyNone,
      w\<lparr>logged := logged w @ [makeRecord INFO ''close_db requested'' None,
          makeRecord INFO ''db connection already closed. No action taken.'' None]\<rparr>)"
proof -
  assume a: "g w ''db'' = None"
  then have "(g w)(''db'' := None) = g w"
    by (simp add: fun_upd_idem)
  with a show ?thesis
    by (simp add: close_db_def log_info_def Let_def)
qed

lemma w_conn_eq:
  "w_conn = \<lparr>g = [''db'' \<mapsto> Conn 0],
             logged = [makeRecord INFO ''Connecting to database'' None],
             opened = [engine_url Map.empty], close_calls = [], excepthook_calls = []\<rparr>"
  by (simp add: w_conn_def w_fresh_def get_db_def log_info_def Let_def)

lemma w_conn_db: "g w_conn ''db'' = Some (Conn 0)"
  by (simp add: w_conn_eq)

subsection \<open>The invariant of a context\<close>

lemma closed_handles_old: "list_all (conn_below n) cs \<Longrightarrow> Conn n \<notin> set cs"
  by (induction cs) (auto simp: conn_below_def split: pyval.splits)

lemma closed_handles_mono:
  "list_all (conn_below n) cs \<Longrightarrow> list_all (conn_below (Suc n)) cs"
  by (induction cs) (auto simp: conn_below_def split: pyval.splits)

lemma conn_inv_fresh:
  "g w ''db'' = None \<Longrightarrow> opened w = [] \<Longrightarrow> close_calls w = [] \<Longrightarrow> conn_inv w"
  by (simp add: conn_inv_def held_def stored_def)

lemma conn_inv_get_db:
  assumes "conn_inv w"
  shows "conn_inv (snd (get_db env connect_raises w))"
proof (cases "g w ''db''")
  case None
  show ?thesis
  proof (cases connect_raises)
    case (Some x)
    with None assms show ?thesis
      by (simp add: get_db_absent_raises conn_inv_def held_def stored_def)
  next
    case cr: None
    from assms None have h: "held w = []"
      and cs: "list_all (conn_below (length (opened w))) (close_calls w)"
      by (simp_all add: conn_inv_def stored_def)
    from cs have new: "Conn (length (opened w)) \<notin> set (close_calls w)"
      by (rule closed_handles_old)
    from h new cs None cr show ?thesis
      by (simp add: get_db_absent conn_inv_def held_def stored_def closed_handles_mono
          conn_below_def)
  qed
next
  case (Some v)
  with assms show ?thesis
    by (simp add: get_db_present)
qed

lemma conn_inv_close_db:
  assumes "conn_inv w"
  shows "conn_inv (snd (close_db e close_raises w))"
proof (cases "g w ''db''")
  case None
  with assms show ?thesis
    by (simp add: close_db_absent conn_inv_def held_def stored_def)
next
  case (Some v)
  with assms obtain c where v: "v = Conn c" and c: "c < length (opened w)"
    by (auto simp: conn_inv_def conn_below_def split: pyval.splits)
  from assms Some v have h: "held w = [c]"
    by (simp add: conn_inv_def stored_def)
  have "filter (\<lambda>i. Conn i \<notin> set (close_calls w) \<and> i \<noteq> c) [0..<length (opened w)]
        = filter (\<lambda>i. i \<noteq> c) (held w)"
    by (simp add: held_def conj_commute)
  with h have gone:
    "filter (\<lambda>i. i \<noteq> c \<and> Conn i \<notin> set (close_calls w)) [0..<length (opened w)] = []"
    by (simp add: conj_commute)
  from assms have cs: "list_all (conn_below (length (opened w))) (close_calls w)"
    by (simp add: conn_inv_def)
  have "v \<noteq> PyNone" using v by simp
  with Some v c gone cs show ?thesis
    by (simp add: close_db_present conn_inv_def held_def stored_def conn_below_def)
qed

lemma reachable_conn_inv: "reachable w \<Longrightarrow> conn_inv w"
proof (induction rule: reachable.induct)
  case (fresh w)
  then show ?case by (rule conn_inv_fresh)
next
  case (acquire w env connect_raises)
  then show ?case by (simp add: conn_inv_get_db)
next
  case (release w e close_raises)
  then show ?case by (simp add: conn_inv_close_db)
qed

lemma stored_le_1: "length (stored w) \<le> 1"
  by (simp add: stored_def split: option.split pyval.split)

lemma reachable_w_conn: "reachable w_conn"
proof -
  have "reachable w_fresh"
    by (rule reachable.fresh) (simp_all add: w_fresh_def)
  then show ?thesis
    unfolding w_conn_def by (rule reachable.acquire)
qed

section \<open>The claims\<close>

text \<open>
  C1 (the code departs from it). The claim: a second \<^verbatim>\<open>get_db\<close> in the same context
  returns the handle the first call returned, and opens no second connection. In the code
  the first call on a fresh context returns the new connection \<open>Conn 0\<close>; the second
  call leaves the state as it is (no second connection is opened) but returns \<^verbatim>\<open>None\<close>,
  not the stored handle, because \<^verbatim>\<open>return g.db\<close> is indented into the \<^verbatim>\<open>if\<close> block.
\<close>

theorem get_db_second_call_returns_None:
  "fst (get_db Map.empty None w_fresh) = Inr (Conn 0) \<and>
   g w_conn ''db'' = Some (Conn 0) \<and>
   get_db Map.empty None w_conn = (Inr PyNone, w_conn)"
proof -
  have "fst (get_db Map.empty None w_fresh) = Inr (Conn 0)"
    by (simp add: get_db_absent w_fresh_def)
  moreover have "get_db Map.empty None w_conn = (Inr PyNone, w_conn)"
    using w_conn_db by (rule get_db_present)
  ultimately show ?thesis
    using w_conn_db by simp
qed

text \<open>
  C2. Whatever the liveness query does, the health route answers with status 200; the
  body is "OK" when the query succeeds and "BAD" when it raises a database-operational
  error or any other exception.
\<close>

theorem health_response:
  "status (health q) = 200 \<and>
   body (health (QueryOk row)) = ''OK'' \<and>
   body (health (OperationalError x)) = ''BAD'' \<and>
   body (health (OtherException x)) = ''BAD''"
  by (cases q) (simp_all add: health_def)

text \<open>
  C3, as the claim states it, fails: with a handle stored whose \<^verbatim>\<open>close()\<close> raises,
  \<^verbatim>\<open>close_db\<close> raises that exception to its caller, and the only records it has logged
  are the two INFO lines written before the call of \<^verbatim>\<open>close()\<close>.
\<close>

theorem close_db_raises_counterexample:
  "fst (close_db None (Some close_error) w_conn) = Inl close_error \<and>
   logged (snd (close_db None (Some close_error) w_conn)) =
     logged w_conn @ [makeRecord INFO ''close_db requested'' None,
                      makeRecord INFO ''Closing db connection'' None]"
  by (simp add: close_db_present [OF w_conn_db])

text \<open>
  C3, amended. \<^verbatim>\<open>close_db\<close> does not catch a failure of \<^verbatim>\<open>close()\<close>: when the context
  holds a handle and \<^verbatim>\<open>close()\<close> raises, the same exception is raised by \<^verbatim>\<open>close_db\<close>;
  by then the handle has been removed from the context, \<^verbatim>\<open>close()\<close> has been called on it
  once, and the INFO lines "close_db requested" and "Closing db connection" are the only
  records logged. \<^verbatim>\<open>close_db\<close> raises nothing of its own: when \<^verbatim>\<open>close()\<close> returns, or the
  context has no \<^verbatim>\<open>db\<close> attribute, it returns \<^verbatim>\<open>None\<close>.
\<close>

theorem close_db_propagates:
  "(g w ''db'' = Some (Conn c) \<longrightarrow>
      close_db e (Some x) w =
        (Inl x,
         w\<lparr>logged := logged w @ [makeRecord INFO ''close_db requested'' None,
                                  makeRecord INFO ''Closing db connection'' None],
           g := (g w)(''db'' := None),
           close_calls := close_calls w @ [Conn c]\<rparr>)) \<and>
   fst (close_db e None w) = Inr PyNone \<and>
   (g w ''db'' = None \<longrightarrow> fst (close_db e close_raises w) = Inr PyNone)"
proof (intro conjI impI)
  assume "g w ''db'' = Some (Conn c)"
  then show "close_db e (Some x) w =
        (Inl x,
         w\<lparr>logged := logged w @ [makeRecord INFO ''close_db requested'' None,
                                  makeRecord INFO ''Closing db connection'' None],
           g := (g w)(''db'' := None),
           close_calls := close_calls w @ [Conn c]\<rparr>)"
    by (simp add: close_db_present)
next
  show "fst (close_db e None w) = Inr PyNone"
    by (simp add: close_db_def Let_def)
next
  assume "g w ''db'' = None"
  then show "fst (close_db e close_raises w) = Inr PyNone"
    by (simp add: close_db_absent)
qed

theorem close_db_propagates_witness:
  "g w_conn ''db'' = Some (Conn 0) \<and>
   close_db None (Some close_error) w_conn =
     (Inl close_error,
      w_conn\<lparr>logged := logged w_conn @ [makeRecord INFO ''close_db requested'' None,
                                        makeRecord INFO ''Closing db connection'' None],
             g := (g w_conn)(''db'' := None),
             close_calls := close_calls w_conn @ [Conn 0]\<rparr>) \<and>
   g w_fresh ''db'' = None \<and>
   fst (close_db None (Some close_error) w_fresh) = Inr PyNone"
  using close_db_propagates [of w_conn 0 None close_error None]
    close_db_propagates [of w_fresh 0 None close_error "Some close_error"]
  by (simp add: w_conn_db w_fresh_def)

text \<open>
  C4. When the context holds a connection handle that \<^verbatim>\<open>engine.connect()\<close> returned
  earlier, \<^verbatim>\<open>close_db\<close> calls \<^verbatim>\<open>close()\<close> on that handle exactly once (one call is added to
  the calls made so far, whether or not it raises) and removes the handle from the context.
  A \<^verbatim>\<open>get_db\<close> that follows in the same context never returns the closed handle: it
  connects again, and when the connect succeeds it returns and stores the handle of a new
  connection, different from the closed one.
\<close>

theorem close_db_then_get_db:
  assumes "g w ''db'' = Some (Conn c)" and "c < length (opened w)"
  shows "close_calls (snd (close_db e close_raises w)) = close_calls w @ [Conn c] \<and>
         count_list (close_calls (snd (close_db e close_raises w))) (Conn c) =
           count_list (close_calls w) (Conn c) + 1 \<and>
         g (snd (close_db e close_raises w)) ''db'' = None \<and>
         fst (get_db env connect_raises (snd (close_db e close_raises w))) \<noteq> Inr (Conn c) \<and>
         fst (get_db env None (snd (close_db e close_raises w))) = Inr (Conn (length (opened w))) \<and>
         Conn (length (opened w)) \<noteq> Conn c \<and>
         g (snd (get_db env None (snd (close_db e close_raises w)))) ''db'' =
           Some (Conn (length (opened w))) \<and>
         length (opened (snd (get_db env None (snd (close_db e close_raises w))))) =
           length (opened w) + 1"
proof -
  let ?w' = "snd (close_db e close_raises w)"
  have w': "?w' =
      w\<lparr>logged := logged w @ [makeRecord INFO ''close_db requested'' None,
                               makeRecord INFO ''Closing db connection'' None],
        g := (g w)(''db'' := None),
        close_calls := close_calls w @ [Conn c]\<rparr>"
    using assms(1) by (simp add: close_db_present)
  have absent: "g ?w' ''db'' = None" and len: "length (opened ?w') = length (opened w)"
    by (simp_all add: w')
  have calls: "close_calls ?w' = close_calls w @ [Conn c]"
    by (simp add: w')
  have fresh: "fst (get_db env None ?w') = Inr (Conn (length (opened w)))"
    by (simp add: get_db_absent [OF absent] len)
  have never: "fst (get_db env connect_raises ?w') \<noteq> Inr (Conn c)"
  proof (cases connect_raises)
    case None
    with fresh assms(2) show ?thesis by simp
  next
    case (Some x)
    then show ?thesis by (simp add: get_db_absent_raises [OF absent])
  qed
  have stored': "g (snd (get_db env None ?w')) ''db'' = Some (Conn (length (opened w)))"
    by (simp add: get_db_absent [OF absent] len)
  have grown: "length (opened (snd (get_db env None ?w'))) = length (opened w) + 1"
    by (simp add: get_db_absent [OF absent] len)
  from calls absent never fresh assms(2) stored' grown show ?thesis
    by simp
qed

theorem close_db_then_get_db_witness:
  "g w_conn ''db'' = Some (Conn 0) \<and> 0 < length (opened w_conn) \<and>
   close_calls (snd (close_db None None w_conn)) = [Conn 0] \<and>
   g (snd (close_db None None w_conn)) ''db'' = None \<and>
   fst (get_db Map.empty None (snd (close_db None None w_conn))) = Inr (Conn 1)"
proof -
  have h1: "g w_conn ''db'' = Some (Conn 0)"
    by (rule w_conn_db)
  have h2: "0 < length (opened w_conn)"
    by (simp add: w_conn_eq)
  have h3: "close_calls w_conn = []" and h4: "length (opened w_conn) = 1"
    by (simp_all add: w_conn_eq)
  from close_db_then_get_db [OF h1 h2, of None None Map.empty None] h1 h2 h3 h4
  show ?thesis by simp
qed

text \<open>
  C5. When the context has no \<^verbatim>\<open>db\<close> attribute, \<^verbatim>\<open>close_db\<close> returns normally (it
  raises nothing, whatever \<^verbatim>\<open>close()\<close> would have done), leaves the context, the
  connections and the \<^verbatim>\<open>close()\<close> calls as they were, and logs two lines, both at level
  INFO (below ERROR): "close_db requested" and "db connection already closed. No action
  taken.".
\<close>

theorem close_db_no_handle:
  assumes "g w ''db'' = None"
  shows "fst (close_db e close_raises w) = Inr PyNone \<and>
         g (snd (close_db e close_raises w)) = g w \<and>
         opened (snd (close_db e close_raises w)) = opened w \<and>
         close_calls (snd (close_db e close_raises w)) = close_calls w \<and>
         logged (snd (close_db e close_raises w)) =
           logged w @ [makeRecord INFO ''close_db requested'' None,
             makeRecord INFO ''db connection already closed. No action taken.'' None] \<and>
         levelno (makeRecord INFO ''db connection already closed. No action taken.'' None)
           = INFO \<and>
         INFO < ERROR"
  using assms by (simp add: close_db_absent makeRecord_def INFO_def ERROR_def)

theorem close_db_no_handle_witness:
  "g w_fresh ''db'' = None \<and>
   fst (close_db None (Some close_error) w_fresh) = Inr PyNone \<and>
   g (snd (close_db None (Some close_error) w_fresh)) = g w_fresh \<and>
   logged (snd (close_db None (Some close_error) w_fresh)) =
     [makeRecord INFO ''close_db requested'' None,
      makeRecord INFO ''db connection already closed. No action taken.'' None]"
proof -
  have h: "g w_fresh ''db'' = None"
    by (simp add: w_fresh_def)
  have l: "logged w_fresh = []"
    by (simp add: w_fresh_def)
  from close_db_no_handle [OF h, of None "Some close_error"] h l show ?thesis
    by simp
qed

text \<open>
  C6. \<^verbatim>\<open>RequestFormatter.format\<close> sets the record's \<open>url\<close> and \<open>remote_addr\<close> from the
  request of the active request context, and sets both to \<^verbatim>\<open>None\<close> when there is none.
  The context is read anew at every call: formatting a record that an earlier call has
  already attributed (under any context) gives what formatting the untouched record
  under the present context gives. The other fields of the record stay as they are, and
  the line is the base formatter's rendering of the attributed record.
\<close>

theorem format_request_fields:
  "url (snd (format super_format (Some req) r)) = Some (request_url req) \<and>
   remote_addr (snd (format super_format (Some req) r)) = request_remote_addr req \<and>
   url (snd (format super_format None r)) = None \<and>
   remote_addr (snd (format super_format None r)) = None \<and>
   snd (format super_format ctx2 (snd (format super_format ctx1 r))) =
     snd (format super_format ctx2 r) \<and>
   levelno (snd (format super_format ctx r)) = levelno r \<and>
   msg (snd (format super_format ctx r)) = msg r \<and>
   exc_info (snd (format super_format ctx r)) = exc_info r \<and>
   fst (format super_format ctx r) = super_format (snd (format super_format ctx r))"
  by (cases ctx; cases ctx1; cases ctx2) (simp_all add: format_def Let_def)

text \<open>
  C7. For an exception whose class is not \<^verbatim>\<open>KeyboardInterrupt\<close> or a subclass of it,
  the hook logs exactly one record, at level CRITICAL, carrying the exception, and does
  not call the default hook. For \<^verbatim>\<open>KeyboardInterrupt\<close> (or a subclass) it logs nothing
  and calls \<^verbatim>\<open>sys.__excepthook__\<close> once, with the three arguments it was given.
\<close>

theorem handle_exception_logs_once:
  "(\<not> issubclass exc_type ''KeyboardInterrupt'' \<longrightarrow>
      logged (handle_exception exc_type exc_value tb w) =
        logged w @ [makeRecord CRITICAL ''Uncaught exception'' (Some (exc_type, exc_value, tb))] \<and>
      levelno (makeRecord CRITICAL ''Uncaught exception'' (Some (exc_type, exc_value, tb)))
        = CRITICAL \<and>
      length (filter (\<lambda>r. levelno r = CRITICAL)
                (logged (handle_exception exc_type exc_value tb w))) =
        length (filter (\<lambda>r. levelno r = CRITICAL) (logged w)) + 1 \<and>
      excepthook_calls (handle_exception exc_type exc_value tb w) = excepthook_calls w) \<and>
   (issubclass exc_type ''KeyboardInterrupt'' \<longrightarrow>
      logged (handle_exception exc_type exc_value tb w) = logged w \<and>
      excepthook_calls (handle_exception exc_type exc_value tb w) =
        excepthook_calls w @ [(exc_type, exc_value, tb)])"
  by (simp add: handle_exception_def log_critical_def makeRecord_def)

theorem handle_exception_logs_once_witness:
  "\<not> issubclass ValueError ''KeyboardInterrupt'' \<and>
   logged (handle_exception ValueError (Exn ValueError ''bad'') [] w_fresh) =
     [makeRecord CRITICAL ''Uncaught exception'' (Some (ValueError, Exn ValueError ''bad'', []))] \<and>
   excepthook_calls (handle_exception ValueError (Exn ValueError ''bad'') [] w_fresh) = [] \<and>
   issubclass KeyboardInterrupt ''KeyboardInterrupt'' \<and>
   logged (handle_exception KeyboardInterrupt (Exn KeyboardInterrupt []) [] w_fresh) = [] \<and>
   excepthook_calls (handle_exception KeyboardInterrupt (Exn KeyboardInterrupt []) [] w_fresh) =
     [(KeyboardInterrupt, Exn KeyboardInterrupt [], [])]"
proof -
  have no: "\<not> issubclass ValueError ''KeyboardInterrupt''"
    by (simp add: issubclass_def ValueError_def)
  have yes: "issubclass KeyboardInterrupt ''KeyboardInterrupt''"
    by (simp add: issubclass_def KeyboardInterrupt_def)
  have l: "logged w_fresh = []" and h: "excepthook_calls w_fresh = []"
    by (simp_all add: w_fresh_def)
  from handle_exception_logs_once [of ValueError "Exn ValueError ''bad''" "[]" w_fresh]
    handle_exception_logs_once [of KeyboardInterrupt "Exn KeyboardInterrupt []" "[]" w_fresh]
    no yes l h
  show ?thesis by simp
qed

text \<open>
  C8. In every state a context can reach by calls of \<^verbatim>\<open>get_db\<close> and \<^verbatim>\<open>close_db\<close>, at
  most one connection is open and not yet closed, and it is the one stored in \<^verbatim>\<open>g.db\<close>.
  \<^verbatim>\<open>get_db\<close> changes nothing when a handle is stored, and after \<^verbatim>\<open>close_db\<close> none is
  stored.
\<close>

theorem at_most_one_handle:
  assumes "reachable w"
  shows "length (held w) \<le> 1 \<and> held w = stored w \<and>
         (g w ''db'' \<noteq> None \<longrightarrow> snd (get_db env connect_raises w) = w) \<and>
         g (snd (close_db e close_raises w)) ''db'' = None"
proof -
  from assms have "conn_inv w"
    by (rule reachable_conn_inv)
  then have eq: "held w = stored w"
    by (simp add: conn_inv_def)
  with stored_le_1 [of w] have "length (held w) \<le> 1"
    by simp
  moreover have "g w ''db'' \<noteq> None \<longrightarrow> snd (get_db env connect_raises w) = w"
    by (auto simp: get_db_present)
  moreover have "g (snd (close_db e close_raises w)) ''db'' = None"
    by (simp add: close_db_def log_info_def Let_def split: option.split)
  ultimately show ?thesis
    using eq by simp
qed

theorem at_most_one_handle_witness:
  "reachable w_conn \<and> held w_conn = [0] \<and> stored w_conn = [0] \<and>
   snd (get_db Map.empty None w_conn) = w_conn \<and>
   g (snd (close_db None None w_conn)) ''db'' = None"
proof -
  have s: "stored w_conn = [0]"
    by (simp add: stored_def w_conn_db)
  from at_most_one_handle [OF reachable_w_conn, of Map.empty None None None] s
    reachable_w_conn w_conn_db
  show ?thesis by simp
qed

text \<open>
  C9, as the claim states it, fails for the log level: with \<^verbatim>\<open>PYTHON_LOG_LEVEL\<close> absent
  from the environment the value read is the string "DEBUG", not an absent value.
\<close>

theorem log_level_default_counterexample:
  "PYTHON_LOG_LEVEL Map.empty = Some ''DEBUG'' \<and> PYTHON_LOG_LEVEL Map.empty \<noteq> None"
  by (simp add: PYTHON_LOG_LEVEL_def getenv_def)

text \<open>
  C9, amended. Reading the configuration never raises. Each of the five database
  variables (user, password, host, port, database name) that is absent from the
  environment is read as \<^verbatim>\<open>None\<close>; the log level, when absent, is read as the default
  "DEBUG".
\<close>

theorem config_absent:
  "(env ''DB_USER'' = None \<longrightarrow> DB_USER env = None) \<and>
   (env ''DB_PASSWORD'' = None \<longrightarrow> DB_PASSWORD env = None) \<and>
   (env ''DB_HOST'' = None \<longrightarrow> DB_HOST env = None) \<and>
   (env ''DB_PORT'' = None \<longrightarrow> DB_PORT env = None) \<and>
   (env ''DB_NAME'' = None \<longrightarrow> DB_NAME env = None) \<and>
   (env ''PYTHON_LOG_LEVEL'' = None \<longrightarrow> PYTHON_LOG_LEVEL env = Some ''DEBUG'')"
  by (simp add: DB_USER_def DB_PASSWORD_def DB_HOST_def DB_PORT_def DB_NAME_def
      PYTHON_LOG_LEVEL_def getenv_def)

theorem config_absent_witness:
  "(Map.empty :: environ) ''DB_USER'' = None \<and> DB_USER Map.empty = None \<and>
   (Map.empty :: environ) ''DB_PASSWORD'' = None \<and> DB_PASSWORD Map.empty = None \<and>
   (Map.empty :: environ) ''DB_HOST'' = None \<and> DB_HOST Map.empty = None \<and>
   (Map.empty :: environ) ''DB_PORT'' = None \<and> DB_PORT Map.empty = None \<and>
   (Map.empty :: environ) ''DB_NAME'' = None \<and> DB_NAME Map.empty = None \<and>
   (Map.empty :: environ) ''PYTHON_LOG_LEVEL'' = None \<and>
   PYTHON_LOG_LEVEL Map.empty = Some ''DEBUG''"
  using config_absent [of Map.empty] by simp

text \<open>
  C10. After any call of \<^verbatim>\<open>close_db\<close>, whether \<^verbatim>\<open>close()\<close> returns, raises or is not
  called at all, the context is the one before the call with the \<^verbatim>\<open>db\<close> attribute
  removed: no handle is stored, and every other attribute is as it was. The handle is
  taken out before \<^verbatim>\<open>close()\<close> is called, so the state in which an exception of
  \<^verbatim>\<open>close()\<close> leaves \<^verbatim>\<open>close_db\<close> has it removed already.
\<close>

theorem close_db_pops_handle:
  "g (snd (close_db e close_raises w)) = (g w)(''db'' := None) \<and>
   g (snd (close_db e close_raises w)) ''db'' = None \<and>
   g (snd (close_db e (Some x) w)) ''db'' = None"
  by (simp add: close_db_def log_info_def Let_def split: option.split)

end
